theory Spec2Isabelle
  imports Main
begin

section \<open>JavaScript values and string primitives\<close>

text \<open>
  The responder (\<^verbatim>\<open>lib/controller/responder/index.js\<close>) works on JavaScript strings that
  may be \<^verbatim>\<open>undefined\<close>. A possibly missing string is a \<open>string option\<close>; \<open>None\<close> stands
  for \<^verbatim>\<open>undefined\<close> and \<^verbatim>\<open>null\<close>. Strings are lists of 8-bit characters, which is what
  Node hands out for header values.

  The two exceptions that the code can raise are values: the error built by
  \<^verbatim>\<open>throwUndefinedFormatError\<close> (an \<^verbatim>\<open>InternalServerError\<close> with the message
  "Format not defined in response.formats.") and the \<^verbatim>\<open>TypeError\<close> of the runtime
  for a property read on \<^verbatim>\<open>undefined\<close>.
\<close>

datatype error = UndefinedFormatError | TypeError

text \<open>
  \<^verbatim>\<open>if (v)\<close> on a string-or-undefined value: the empty string and \<^verbatim>\<open>undefined\<close> are
  falsy. \<open>truthy_str v\<close> is the string when the test succeeds.
\<close>

definition truthy_str :: "string option \<Rightarrow> string option" where
  "truthy_str v = (case v of None \<Rightarrow> None | Some s \<Rightarrow> if s = [] then None else Some s)"

text \<open>
  The class \<^verbatim>\<open>\s\<close> of a JavaScript regular expression, restricted to 8-bit characters:
  TAB, LF, VT, FF, CR, space and the no-break space.
\<close>

definition js_space :: "char \<Rightarrow> bool" where
  "js_space c = (c = CHR 0x09 \<or> c = CHR 0x0A \<or> c = CHR 0x0B \<or> c = CHR 0x0C \<or>
                 c = CHR 0x0D \<or> c = CHR 0x20 \<or> c = CHR 0xA0)"

text \<open>
  One attempt to match \<^verbatim>\<open>/\s*,\s*/\<close> at the start of a string: the greedy \<^verbatim>\<open>\s*\<close>
  takes the whole run of white space, a comma must follow, and the second \<^verbatim>\<open>\s*\<close>
  takes the run after it. (Giving back white space cannot help: the character after a
  shorter run is white space, not a comma.) The result is the rest of the string behind
  the match.
\<close>

definition match_sep :: "string \<Rightarrow> string option" where
  "match_sep s =
     (case dropWhile js_space s of
        [] \<Rightarrow> None
      | c # r \<Rightarrow> if c = CHR '','' then Some (dropWhile js_space r) else None)"

text \<open>
  \<^verbatim>\<open>String.prototype.split\<close> with the separator \<^verbatim>\<open>/\s*,\s*/\<close>, as the language defines it:
  the matcher is tried at each position \<open>q\<close> from the start \<open>p\<close> of the current piece; where
  it succeeds the piece \<open>S[p, q)\<close> is emitted and both indices move behind the match; at
  the end of the string the last piece is emitted. \<open>cur\<close> is \<open>S[p, q)\<close> and the second
  argument is the string from \<open>q\<close> on. (A match of this separator is never empty, so the
  language's test for an empty match at \<open>p\<close> never fires.)
\<close>

function js_split_from :: "string \<Rightarrow> string \<Rightarrow> string list" where
  "js_split_from cur [] = [cur]"
| "js_split_from cur (c # s) =
     (case match_sep (c # s) of
        Some r \<Rightarrow> cur # js_split_from [] r
      | None \<Rightarrow> js_split_from (cur @ [c]) s)"
  by pat_completeness auto
termination
proof (relation "measure (\<lambda>(cur, s). length s)")
  show "wf (measure (\<lambda>(cur, s). length s))"
    by simp
next
  fix cur :: string and c s r
  assume "match_sep (c # s) = Some r"
  then obtain d r' where d: "dropWhile js_space (c # s) = d # r'"
    and r: "r = dropWhile js_space r'"
    by (auto simp: match_sep_def split: list.splits if_splits)
  have "length r \<le> length r'"
    unfolding r by (rule length_dropWhile_le)
  moreover have "length (d # r') \<le> length (c # s)"
    unfolding d [symmetric] by (rule length_dropWhile_le)
  ultimately show "(([], r), (cur, c # s)) \<in> measure (\<lambda>(cur, s). length s)"
    by simp
next
  fix cur :: string and c s
  show "((cur @ [c], s), (cur, c # s)) \<in> measure (\<lambda>(cur, s). length s)"
    by simp
qed

text \<open>\<^verbatim>\<open>accepts.split(/\s*,\s*/)\<close>, for a non-empty \<^verbatim>\<open>accepts\<close>.\<close>

definition split_accept :: "string \<Rightarrow> string list" where
  "split_accept s = js_split_from [] s"

text \<open>\<^verbatim>\<open>accepts[i].split(';')[0]\<close>: the part of an entry before its first semicolon.\<close>

definition media_type :: "string \<Rightarrow> string" where
  "media_type entry = takeWhile (\<lambda>c. c \<noteq> CHR '';'') entry"

section \<open>The responder and its collaborators\<close>

text \<open>
  The fields of the controller that the responder aliases: \<^verbatim>\<open>this.params.format\<close>,
  \<^verbatim>\<open>this.headers.accept\<close>, \<^verbatim>\<open>this.formats\<close> (the controller's \<^verbatim>\<open>respondsWith\<close>) and
  the controller's \<^verbatim>\<open>completed\<close> flag.
\<close>

record responder =
  params_format :: "string option"
  headers_accept :: "string option"
  formats :: "string list"
  completed :: bool

text \<open>
  The module \<^verbatim>\<open>../../response\<close> is not part of the source at hand. Its two functions
  that \<^verbatim>\<open>negotiate\<close> calls are parameters of the model: any pair of functions from
  format tokens (and Accept entries) to a content type or \<^verbatim>\<open>undefined\<close>.
\<close>

record response_api =
  getContentTypeForFormat :: "string \<Rightarrow> string option"
  matchAcceptHeaderContentType :: "string list \<Rightarrow> string \<Rightarrow> string option"

text \<open>
  A value stored in a strategies object: a function (named by the module or handler it
  stands for) or anything else.
\<close>

datatype strategy = Callable string | NotCallable

type_synonym strategies = "(string \<times> strategy) list"

text \<open>The object \<^verbatim>\<open>{format: ..., contentType: ...}\<close> that \<^verbatim>\<open>negotiate\<close> returns.\<close>

record negotiated =
  format :: "string option"
  contentType :: "string option"

section \<open>negotiate\<close>

text \<open>
  Lines 59 to 68: the clone of \<^verbatim>\<open>this.formats\<close>, extended by the keys of the strategies
  in their enumeration order, skipping a key that is already there.
\<close>

fun push_keys :: "string list \<Rightarrow> string list \<Rightarrow> string list" where
  "push_keys acceptFormats [] = acceptFormats"
| "push_keys acceptFormats (key # keys) =
     push_keys (if key \<in> set acceptFormats then acceptFormats else acceptFormats @ [key]) keys"

definition acceptFormats_of :: "responder \<Rightarrow> strategies option \<Rightarrow> string list" where
  "acceptFormats_of rsp strats =
     push_keys (formats rsp) (map fst (case strats of None \<Rightarrow> [] | Some s \<Rightarrow> s))"

text \<open>Lines 72 to 78: the entries of the Accept header, or \<^verbatim>\<open>['*/*']\<close> without one.\<close>

definition accepts_of :: "responder \<Rightarrow> string list" where
  "accepts_of rsp =
     (case truthy_str (headers_accept rsp) of
        Some a \<Rightarrow> split_accept a
      | None \<Rightarrow> [''*/*''])"

text \<open>Lines 80 to 97: the candidate formats \<^verbatim>\<open>types\<close>.\<close>

definition types_of :: "responder \<Rightarrow> string option \<Rightarrow> strategies option \<Rightarrow> string list" where
  "types_of rsp frmt strats =
     (case truthy_str frmt of
        Some fr \<Rightarrow> [fr]
      | None \<Rightarrow>
          (case truthy_str (params_format rsp) of
             Some f \<Rightarrow> if f \<in> set (acceptFormats_of rsp strats) then [f] else []
           | None \<Rightarrow> acceptFormats_of rsp strats))"

text \<open>Lines 101 to 108: the scan of the entries for \<^verbatim>\<open>*/*\<close>.\<close>

fun wildcard_in :: "string list \<Rightarrow> bool" where
  "wildcard_in [] = False"
| "wildcard_in (a # as) = (if media_type a = ''*/*'' then True else wildcard_in as)"

text \<open>
  Lines 125 to 138: the loop over \<^verbatim>\<open>types\<close>. Both branches of its body leave the loop,
  one by \<^verbatim>\<open>break\<close> and one by the exception. A loop that ran to its end would leave
  \<^verbatim>\<open>format\<close> and \<^verbatim>\<open>contentType\<close> undefined.
\<close>

fun match_types :: "response_api \<Rightarrow> string list \<Rightarrow> string list \<Rightarrow> error + negotiated" where
  "match_types api accepts [] = Inr \<lparr>format = None, contentType = None\<rparr>"
| "match_types api accepts (t # ts) =
     (case truthy_str (matchAcceptHeaderContentType api accepts t) of
        Some m \<Rightarrow> Inr \<lparr>format = Some t, contentType = Some m\<rparr>
      | None \<Rightarrow> Inl UndefinedFormatError)"

text \<open>Lines 100 to 149: the decision once \<^verbatim>\<open>accepts\<close> and \<^verbatim>\<open>types\<close> are fixed.\<close>

definition decide :: "response_api \<Rightarrow> string list \<Rightarrow> string list \<Rightarrow> error + negotiated" where
  "decide api accepts types =
     (case types of
        [] \<Rightarrow> Inl UndefinedFormatError
      | t # ts \<Rightarrow>
          if wildcard_in accepts then
            (case truthy_str (getContentTypeForFormat api t) of
               None \<Rightarrow> Inl UndefinedFormatError
             | Some ct \<Rightarrow> Inr \<lparr>format = Some t, contentType = Some ct\<rparr>)
          else match_types api accepts types)"

definition negotiate ::
  "response_api \<Rightarrow> responder \<Rightarrow> string option \<Rightarrow> strategies option \<Rightarrow> error + negotiated" where
  "negotiate api rsp frmt strats = decide api (accepts_of rsp) (types_of rsp frmt strats)"

section \<open>respond, respondTo and respondWith\<close>

text \<open>
  The options hash, with the four properties that the responder reads or writes:
  \<^verbatim>\<open>type\<close>, \<^verbatim>\<open>statusCode\<close>, \<^verbatim>\<open>format\<close> and \<^verbatim>\<open>contentType\<close>. \<open>None\<close> is a property
  that is not set.
\<close>

record opts =
  opts_type :: "string option"
  opts_statusCode :: "int option"
  opts_format :: "string option"
  opts_contentType :: "string option"

text \<open>\<^verbatim>\<open>opts || {}\<close>: a missing options argument is the empty hash.\<close>

definition or_empty :: "opts option \<Rightarrow> opts" where
  "or_empty options =
     (case options of
        Some opts \<Rightarrow> opts
      | None \<Rightarrow> \<lparr>opts_type = None, opts_statusCode = None, opts_format = None,
                  opts_contentType = None\<rparr>)"

text \<open>
  The call \<^verbatim>\<open>self.doResponse.call(controller, status, headers, body, cb)\<close> and the call
  \<^verbatim>\<open>response.formatContent(format, content, controller, opts, formatCb)\<close>, each with the
  arguments it gets. The formatter and the writer are outside the responder; what the
  responder does is to make these calls.
\<close>

datatype ('b, 'k) doResponse_call =
  DoResponse (dr_statusCode: int) (dr_headers: "(string \<times> string option) list")
    (dr_body: 'b) (dr_cb: 'k)

datatype ('c, 'b, 'k) formatContent_call =
  FormatContent (fc_format: "string option") (fc_content: 'c) (fc_opts: opts)
    (fc_formatCb: "'b \<Rightarrow> ('b, 'k) doResponse_call")

text \<open>
  Lines 236 to 250. \<^verbatim>\<open>opts.statusCode || 200\<close> takes 200 for a status code that is not
  set and for the falsy number 0.
\<close>

definition respond :: "'c \<Rightarrow> opts option \<Rightarrow> 'k \<Rightarrow> ('c, 'b, 'k) formatContent_call" where
  "respond content options cb =
     (let opts = or_empty options;
          formatCb = (\<lambda>formattedContent.
            DoResponse
              (case opts_statusCode opts of
                 Some n \<Rightarrow> if n = 0 then 200 else n
               | None \<Rightarrow> 200)
              [(''Content-Type'', opts_contentType opts)]
              formattedContent
              cb)
      in FormatContent (opts_format opts) content opts formatCb)"

text \<open>
  What a call of \<^verbatim>\<open>respondTo\<close> that does not throw has done: returned at the
  \<^verbatim>\<open>completed\<close> test, called a strategy function with \<^verbatim>\<open>(content, opts, cb)\<close>, or called
  \<^verbatim>\<open>this.respond\<close>.
\<close>

datatype ('c, 'b, 'k) dispatched =
    Returned
  | StrategyCalled string 'c opts 'k
  | RespondCalled "('c, 'b, 'k) formatContent_call"

text \<open>
  A property key made from a value: \<^verbatim>\<open>strategies[undefined]\<close> reads the property named
  "undefined".
\<close>

definition js_key :: "string option \<Rightarrow> string" where
  "js_key v = (case v of None \<Rightarrow> ''undefined'' | Some s \<Rightarrow> s)"

text \<open>\<^verbatim>\<open>utils.mixin({}, opts, negotiated)\<close>: the properties of \<^verbatim>\<open>negotiated\<close> come last.\<close>

definition mixin :: "opts \<Rightarrow> negotiated \<Rightarrow> opts" where
  "mixin opts n = opts\<lparr>opts_format := format n, opts_contentType := contentType n\<rparr>"

text \<open>
  \<^verbatim>\<open>strategies[key]\<close> on a plain object: its own property if it has one of that name,
  and otherwise what \<^verbatim>\<open>Object.prototype\<close> has under the name. The properties of
  \<^verbatim>\<open>Object.prototype\<close> that are functions are listed; they are not enumerable, so the
  loop over the keys in \<^verbatim>\<open>negotiate\<close> does not see them.
\<close>

definition object_prototype_functions :: "string list" where
  "object_prototype_functions =
     [''constructor'', ''toString'', ''toLocaleString'', ''valueOf'', ''hasOwnProperty'',
      ''isPrototypeOf'', ''propertyIsEnumerable'', ''__defineGetter__'', ''__defineSetter__'',
      ''__lookupGetter__'', ''__lookupSetter__'']"

definition get_property :: "strategies \<Rightarrow> string \<Rightarrow> strategy" where
  "get_property strategies key =
     (case map_of strategies key of
        Some v \<Rightarrow> v
      | None \<Rightarrow>
          if key \<in> set object_prototype_functions then Callable (''Object.prototype.'' @ key)
          else NotCallable)"

text \<open>
  Lines 202 to 223. An exception of \<^verbatim>\<open>negotiate\<close> leaves \<^verbatim>\<open>respondTo\<close> as it is.
\<close>

definition respondTo ::
  "response_api \<Rightarrow> responder \<Rightarrow> 'c \<Rightarrow> strategies option \<Rightarrow> opts option \<Rightarrow> 'k \<Rightarrow>
     error + ('c, 'b, 'k) dispatched" where
  "respondTo api rsp content strats options cb =
     (let strategies = (case strats of None \<Rightarrow> [] | Some s \<Rightarrow> s);
          opts = or_empty options
      in case negotiate api rsp None (Some strategies) of
           Inl err \<Rightarrow> Inl err
         | Inr negotiated \<Rightarrow>
             (let opts = mixin opts negotiated
              in if completed rsp then Inr Returned
                 else (case get_property strategies (js_key (format negotiated)) of
                         Callable fn \<Rightarrow> Inr (StrategyCalled fn content opts cb)
                       | NotCallable \<Rightarrow> Inr (RespondCalled (respond content (Some opts) cb)))))"

text \<open>
  The content handed to \<^verbatim>\<open>respondWith\<close>: an array of values or a single value. Of a
  value only its \<^verbatim>\<open>type\<close> property matters here; \<open>None\<close> is a value without one, such as
  a plain hash of values.
\<close>

record item =
  item_type :: "string option"

datatype content = Array "item list" | Object item

text \<open>\<^verbatim>\<open>toLowerCase\<close> on 8-bit characters: A to Z, and the capital letters of Latin-1.\<close>

definition lower_char :: "char \<Rightarrow> char" where
  "lower_char c =
     (let n = (of_char c :: nat);
          lower = (case c of Char b0 b1 b2 b3 b4 b5 b6 b7 \<Rightarrow> Char b0 b1 b2 b3 b4 True b6 b7)
      in if 65 \<le> n \<and> n \<le> 90 then lower
         else if n = 215 then c
         else if 192 \<le> n \<and> n \<le> 222 then lower
         else c)"

text \<open>
  \<^verbatim>\<open>x.type.toLowerCase()\<close>: a \<^verbatim>\<open>TypeError\<close> when \<^verbatim>\<open>x.type\<close> is undefined.
\<close>

definition type_toLowerCase :: "item \<Rightarrow> error + string option" where
  "type_toLowerCase x =
     (case item_type x of
        None \<Rightarrow> Inl TypeError
      | Some s \<Rightarrow> Inr (Some (map lower_char s)))"

text \<open>Lines 165 to 179: the type determined from the content.\<close>

definition content_type_of :: "content \<Rightarrow> error + string option" where
  "content_type_of content =
     (case content of
        Array [] \<Rightarrow> Inr None
      | Array (x # xs) \<Rightarrow> type_toLowerCase x
      | Object x \<Rightarrow> type_toLowerCase x)"

text \<open>Lines 163 to 187: the options as they are when \<^verbatim>\<open>respondTo\<close> is called.\<close>

definition respondWith_opts :: "content \<Rightarrow> opts option \<Rightarrow> error + opts" where
  "respondWith_opts content options =
     (let opts = or_empty options
      in case content_type_of content of
           Inl err \<Rightarrow> Inl err
         | Inr type \<Rightarrow>
             (let type = (case truthy_str (opts_type opts) of Some t \<Rightarrow> Some t | None \<Rightarrow> type)
              in Inr (opts\<lparr>opts_type := type\<rparr>)))"

text \<open>
  The default strategies of the constructor. The modules \<^verbatim>\<open>./strategies/html\<close> and
  \<^verbatim>\<open>./strategies/api\<close> are functions that are not part of the source at hand; each is
  named by its path.
\<close>

definition respondWithStrategies :: strategies where
  "respondWithStrategies =
     [(''html'', Callable ''./strategies/html''),
      (''json'', Callable ''./strategies/api''),
      (''xml'', Callable ''./strategies/api''),
      (''js'', Callable ''./strategies/api''),
      (''txt'', Callable ''./strategies/api'')]"

definition respondWith ::
  "response_api \<Rightarrow> responder \<Rightarrow> content \<Rightarrow> opts option \<Rightarrow> 'k \<Rightarrow>
     error + (content, 'b, 'k) dispatched" where
  "respondWith api rsp content options cb =
     (case respondWith_opts content options of
        Inl err \<Rightarrow> Inl err
      | Inr opts \<Rightarrow> respondTo api rsp content (Some respondWithStrategies) (Some opts) cb)"

section \<open>The matcher of the response module\<close>

text \<open>
  Modelled from the spec: the function \<^verbatim>\<open>matchAcceptHeaderContentType\<close> of the module
  \<^verbatim>\<open>../../response\<close>, which is missing from the source at hand. The spec (sections 2,
  4.1 and 6) has it take the Accept entries and a format, compare the media type of each
  entry, its parameters stripped, with what is registered for the format, and return the
  matched content type or nothing. The registry, a table from formats to their content
  types in the order of preference, is the argument \<open>registry\<close>.
\<close>

definition spec_matchAcceptHeaderContentType ::
  "(string \<times> string list) list \<Rightarrow> string list \<Rightarrow> string \<Rightarrow> string option" where
  "spec_matchAcceptHeaderContentType registry accepts f =
     (case map_of registry f of
        Some cts \<Rightarrow> find (\<lambda>ct. ct \<in> set (map media_type accepts)) cts
      | None \<Rightarrow> None)"

section \<open>A registry for the examples\<close>

text \<open>
  One possible pair of collaborators, used at the concrete inputs below and nowhere else:
  a table of two formats and their content types, the first of which is the preferred
  one, and the matcher above on that table.
\<close>

definition sample_formats :: "(string \<times> string list) list" where
  "sample_formats =
     [(''html'', [''text/html'']),
      (''json'', [''application/json'', ''text/json''])]"

definition sample_api :: response_api where
  "sample_api =
     \<lparr>getContentTypeForFormat =
        (\<lambda>f. case map_of sample_formats f of Some (ct # cts) \<Rightarrow> Some ct | _ \<Rightarrow> None),
      matchAcceptHeaderContentType = spec_matchAcceptHeaderContentType sample_formats\<rparr>"

section \<open>Facts about the parts of negotiate\<close>

lemma truthy_str_Some: "truthy_str v = Some s \<longleftrightarrow> v = Some s \<and> s \<noteq> []"
  by (auto simp: truthy_str_def split: option.splits)

lemma wildcard_in_iff: "wildcard_in as \<longleftrightarrow> ''*/*'' \<in> set (map media_type as)"
  by (induction as) auto

lemma set_push_keys: "set (push_keys fs ks) = set fs \<union> set ks"
  by (induction fs ks rule: push_keys.induct) auto

lemma push_keys_prefix: "\<exists>zs. push_keys fs ks = fs @ zs"
  by (induction fs ks rule: push_keys.induct) auto

lemma hd_push_keys: "fs \<noteq> [] \<Longrightarrow> hd (push_keys fs ks) = hd fs"
  using push_keys_prefix [of fs ks] by auto











text \<open>What a successful decision looks like, and the only error of a failed one.\<close>

lemma match_types_Inr:
  "match_types api accepts (t # ts) = Inr r \<Longrightarrow>
     \<exists>m. m \<noteq> [] \<and> matchAcceptHeaderContentType api accepts t = Some m \<and>
         r = \<lparr>format = Some t, contentType = Some m\<rparr>"
  by (auto simp: truthy_str_Some split: option.splits)

lemma decide_Inr:
  assumes "decide api accepts types = Inr r"
  shows "\<exists>t ts ct. types = t # ts \<and> ct \<noteq> [] \<and> r = \<lparr>format = Some t, contentType = Some ct\<rparr> \<and>
           (if wildcard_in accepts then getContentTypeForFormat api t = Some ct
            else matchAcceptHeaderContentType api accepts t = Some ct)"
proof (cases types)
  case Nil
  with assms show ?thesis
    by (simp add: decide_def)
next
  case (Cons t ts)
  show ?thesis
  proof (cases "wildcard_in accepts")
    case True
    with assms Cons show ?thesis
      by (auto simp: decide_def truthy_str_Some split: option.splits)
  next
    case False
    with assms Cons have "match_types api accepts (t # ts) = Inr r"
      by (simp add: decide_def)
    from match_types_Inr [OF this] Cons False show ?thesis
      by auto
  qed
qed

lemma decide_Inl: "decide api accepts types = Inl e \<Longrightarrow> e = UndefinedFormatError"
  by (cases types) (auto simp: decide_def split: option.splits if_splits)


text \<open>The definitions that the concrete inputs below are evaluated with.\<close>

lemmas negotiate_eval =
  split_accept_def match_sep_def js_space_def media_type_def truthy_str_def accepts_of_def
  types_of_def acceptFormats_of_def negotiate_def decide_def sample_api_def sample_formats_def
  spec_matchAcceptHeaderContentType_def

section \<open>The claims about negotiate\<close>

text \<open>
  Claim C1. On the path without a wildcard (the candidates are \<open>t # ts\<close> and no Accept entry
  has the media type \<^verbatim>\<open>*/*\<close>), the outcome is settled at the first candidate \<open>t\<close>: if the
  matcher finds a content type for \<open>t\<close>, the result is \<open>t\<close> with that content type; if it
  finds none, negotiation fails there with the undefined-format error, whatever the later
  candidates \<open>ts\<close> are. In particular, with the header \<^verbatim>\<open>application/json\<close>, the formats
  html and json and no hints, negotiation fails as soon as the matcher has nothing for
  html, whether or not it has something for json.
\<close>

theorem negotiate_fails_at_first_unmatched:
  "(types_of rsp frmt strats = t # ts \<and> \<not> wildcard_in (accepts_of rsp) \<longrightarrow>
      negotiate api rsp frmt strats =
        (case truthy_str (matchAcceptHeaderContentType api (accepts_of rsp) t) of
           Some m \<Rightarrow> Inr \<lparr>format = Some t, contentType = Some m\<rparr>
         | None \<Rightarrow> Inl UndefinedFormatError)) \<and>
   (truthy_str (matchAcceptHeaderContentType api [''application/json''] ''html'') = None \<longrightarrow>
      negotiate api
        \<lparr>params_format = None, headers_accept = Some ''application/json'',
         formats = [''html'', ''json''], completed = fin\<rparr> None None =
        Inl UndefinedFormatError)"
proof (intro conjI impI)
  assume "types_of rsp frmt strats = t # ts \<and> \<not> wildcard_in (accepts_of rsp)"
  then show "negotiate api rsp frmt strats =
        (case truthy_str (matchAcceptHeaderContentType api (accepts_of rsp) t) of
           Some m \<Rightarrow> Inr \<lparr>format = Some t, contentType = Some m\<rparr>
         | None \<Rightarrow> Inl UndefinedFormatError)"
    by (simp add: negotiate_def decide_def)
next
  let ?rsp = "\<lparr>params_format = None, headers_accept = Some ''application/json'',
         formats = [''html'', ''json''], completed = fin\<rparr>"
  assume nomatch:
    "truthy_str (matchAcceptHeaderContentType api [''application/json''] ''html'') = None"
  have a: "accepts_of ?rsp = [''application/json'']"
    by (simp add: accepts_of_def truthy_str_def split_accept_def match_sep_def js_space_def)
  have t: "types_of ?rsp None None = [''html'', ''json'']"
    by (simp add: types_of_def truthy_str_def acceptFormats_of_def)
  have w: "\<not> wildcard_in [''application/json'']"
    by (simp add: media_type_def)
  show "negotiate api ?rsp None None = Inl UndefinedFormatError"
    unfolding negotiate_def a t using w nomatch by (simp add: decide_def)
qed

theorem negotiate_fails_at_first_unmatched_witness:
  "types_of \<lparr>params_format = None, headers_accept = Some ''text/json, text/html'',
      formats = [''json'', ''html''], completed = False\<rparr> None None = [''json'', ''html''] \<and>
   \<not> wildcard_in (accepts_of \<lparr>params_format = None,
      headers_accept = Some ''text/json, text/html'',
      formats = [''json'', ''html''], completed = False\<rparr>) \<and>
   negotiate sample_api \<lparr>params_format = None, headers_accept = Some ''text/json, text/html'',
      formats = [''json'', ''html''], completed = False\<rparr> None None =
     Inr \<lparr>format = Some ''json'', contentType = Some ''text/json''\<rparr> \<and>
   truthy_str (matchAcceptHeaderContentType sample_api [''application/json''] ''html'') = None \<and>
   truthy_str (matchAcceptHeaderContentType sample_api [''application/json''] ''json'') =
     Some ''application/json'' \<and>
   negotiate sample_api
     \<lparr>params_format = None, headers_accept = Some ''application/json'',
      formats = [''html'', ''json''], completed = False\<rparr> None None = Inl UndefinedFormatError"
  using negotiate_fails_at_first_unmatched
    [of "\<lparr>params_format = None, headers_accept = Some ''text/json, text/html'',
      formats = [''json'', ''html''], completed = False\<rparr>" None None "''json''" "[''html'']"
      sample_api False]
  by (simp add: negotiate_eval)

text \<open>
  Claim C2. Let the candidates be \<open>t # ts\<close>. If the Accept header is missing (or empty), or
  if the media type of one of its comma-separated entries is \<^verbatim>\<open>*/*\<close>, then negotiation is
  settled by the first candidate alone: it returns \<open>t\<close> with the content type that
  \<^verbatim>\<open>getContentTypeForFormat\<close> gives for \<open>t\<close>, provided there is one (and fails otherwise).
  Without hints and with formats declared, \<open>t\<close> is the first declared format. The
  position of the wildcard among the entries plays no part.
\<close>

theorem negotiate_wildcard_first:
  assumes "types_of rsp frmt strats = t # ts"
    and "truthy_str (headers_accept rsp) = None \<or>
         (\<exists>a. headers_accept rsp = Some a \<and> ''*/*'' \<in> set (map media_type (split_accept a)))"
  shows "negotiate api rsp frmt strats =
           (case truthy_str (getContentTypeForFormat api t) of
              Some ct \<Rightarrow> Inr \<lparr>format = Some t, contentType = Some ct\<rparr>
            | None \<Rightarrow> Inl UndefinedFormatError) \<and>
         (truthy_str frmt = None \<and> truthy_str (params_format rsp) = None \<and> formats rsp \<noteq> [] \<longrightarrow>
            t = formats rsp ! 0)"
proof
  have "wildcard_in (accepts_of rsp)"
  proof (cases "truthy_str (headers_accept rsp)")
    case None
    then show ?thesis
      by (simp add: accepts_of_def media_type_def)
  next
    case (Some a)
    then have "headers_accept rsp = Some a"
      by (simp add: truthy_str_Some)
    with assms(2) Some show ?thesis
      by (auto simp: accepts_of_def wildcard_in_iff)
  qed
  with assms(1) show "negotiate api rsp frmt strats =
           (case truthy_str (getContentTypeForFormat api t) of
              Some ct \<Rightarrow> Inr \<lparr>format = Some t, contentType = Some ct\<rparr>
            | None \<Rightarrow> Inl UndefinedFormatError)"
    by (simp add: negotiate_def decide_def split: option.splits)
next
  show "truthy_str frmt = None \<and> truthy_str (params_format rsp) = None \<and> formats rsp \<noteq> [] \<longrightarrow>
            t = formats rsp ! 0"
  proof
    assume h: "truthy_str frmt = None \<and> truthy_str (params_format rsp) = None \<and>
      formats rsp \<noteq> []"
    then have "types_of rsp frmt strats = acceptFormats_of rsp strats"
      by (simp add: types_of_def)
    with assms(1) have "hd (acceptFormats_of rsp strats) = t"
      by simp
    moreover have "hd (acceptFormats_of rsp strats) = hd (formats rsp)"
      using h by (simp add: acceptFormats_of_def hd_push_keys)
    ultimately show "t = formats rsp ! 0"
      using h by (simp add: hd_conv_nth)
  qed
qed

theorem negotiate_wildcard_first_witness:
  "types_of \<lparr>params_format = None, headers_accept = Some ''application/json, */*'',
      formats = [''html'', ''json''], completed = False\<rparr> None None = [''html'', ''json''] \<and>
   ''*/*'' \<in> set (map media_type (split_accept ''application/json, */*'')) \<and>
   negotiate sample_api \<lparr>params_format = None, headers_accept = Some ''application/json, */*'',
      formats = [''html'', ''json''], completed = False\<rparr> None None =
     Inr \<lparr>format = Some ''html'', contentType = Some ''text/html''\<rparr> \<and>
   ''html'' = [''html'', ''json''] ! 0 \<and>
   truthy_str (headers_accept \<lparr>params_format = None, headers_accept = None,
      formats = [''json'', ''html''], completed = False\<rparr>) = None \<and>
   negotiate sample_api \<lparr>params_format = None, headers_accept = None,
      formats = [''json'', ''html''], completed = False\<rparr> None None =
     Inr \<lparr>format = Some ''json'', contentType = Some ''application/json''\<rparr>"
  using negotiate_wildcard_first
    [of "\<lparr>params_format = None, headers_accept = Some ''application/json, */*'',
      formats = [''html'', ''json''], completed = False\<rparr>" None None "''html''" "[''json'']"
      sample_api]
    negotiate_wildcard_first
    [of "\<lparr>params_format = None, headers_accept = None,
      formats = [''json'', ''html''], completed = False\<rparr>" None None "''json''" "[''html'']"
      sample_api]
  by (simp add: negotiate_eval)



text \<open>
  Claim C5. When no format argument is given and \<^verbatim>\<open>params.format\<close> is set to \<open>f\<close>: the
  merged list holds the declared formats and the keys of the strategies; if \<open>f\<close> is in it,
  the candidates are \<open>f\<close> alone; if it is not, there are no candidates and the call fails
  with the undefined-format error, the declared formats notwithstanding.
\<close>

theorem params_format_narrows:
  assumes "truthy_str frmt = None" and "truthy_str (params_format rsp) = Some f"
  shows "set (acceptFormats_of rsp strats) =
           set (formats rsp) \<union> fst ` set (case strats of None \<Rightarrow> [] | Some s \<Rightarrow> s) \<and>
         (f \<in> set (acceptFormats_of rsp strats) \<longrightarrow> types_of rsp frmt strats = [f]) \<and>
         (f \<notin> set (acceptFormats_of rsp strats) \<longrightarrow>
            types_of rsp frmt strats = [] \<and>
            negotiate api rsp frmt strats = Inl UndefinedFormatError)"
  using assms
  by (simp add: types_of_def negotiate_def decide_def acceptFormats_of_def set_push_keys)

theorem params_format_narrows_witness:
  "types_of \<lparr>params_format = Some ''xml'', headers_accept = None,
      formats = [''html'', ''json''], completed = False\<rparr> None
      (Some [(''xml'', Callable ''toXml'')]) = [''xml''] \<and>
   types_of \<lparr>params_format = Some ''pdf'', headers_accept = None,
      formats = [''html'', ''json''], completed = False\<rparr> None
      (Some [(''xml'', Callable ''toXml'')]) = [] \<and>
   negotiate sample_api \<lparr>params_format = Some ''pdf'', headers_accept = None,
      formats = [''html'', ''json''], completed = False\<rparr> None
      (Some [(''xml'', Callable ''toXml'')]) = Inl UndefinedFormatError"
  using params_format_narrows
    [of None "\<lparr>params_format = Some ''xml'', headers_accept = None,
      formats = [''html'', ''json''], completed = False\<rparr>" "''xml''"
      "Some [(''xml'', Callable ''toXml'')]" sample_api]
    params_format_narrows
    [of None "\<lparr>params_format = Some ''pdf'', headers_accept = None,
      formats = [''html'', ''json''], completed = False\<rparr>" "''pdf''"
      "Some [(''xml'', Callable ''toXml'')]" sample_api]
  by (simp add: truthy_str_def)

text \<open>
  Claim C6. A format \<open>fr\<close> given as the argument of \<^verbatim>\<open>negotiate\<close> (a non-empty string, which
  is what the test \<^verbatim>\<open>if (frmt)\<close> lets through) is the only candidate, whatever the
  declared formats, the strategies and \<^verbatim>\<open>params.format\<close> are.
\<close>

theorem explicit_format_sole_candidate:
  "fr \<noteq> [] \<Longrightarrow> types_of rsp (Some fr) strats = [fr]"
  by (simp add: types_of_def truthy_str_def)

theorem explicit_format_sole_candidate_witness:
  "''pdf'' \<noteq> [] \<and>
   types_of \<lparr>params_format = Some ''json'', headers_accept = Some ''text/html'',
      formats = [''html'', ''json''], completed = False\<rparr> (Some ''pdf'')
      (Some [(''xml'', Callable ''toXml'')]) = [''pdf'']"
  using explicit_format_sole_candidate
    [of "''pdf''" "\<lparr>params_format = Some ''json'', headers_accept = Some ''text/html'',
      formats = [''html'', ''json''], completed = False\<rparr>"
      "Some [(''xml'', Callable ''toXml'')]"]
  by simp

text \<open>
  The round trip through \<^verbatim>\<open>getContentTypeForFormat\<close> is not something \<^verbatim>\<open>negotiate\<close>
  sees to: on the path without a wildcard the content type of the result is what the
  matcher returned, and the resolver is not asked. With a format that has two content
  types the two differ.
\<close>

theorem negotiate_round_trip_counterexample:
  "negotiate sample_api
     \<lparr>params_format = None, headers_accept = Some ''text/json'', formats = [''json''],
      completed = False\<rparr> None None =
     Inr \<lparr>format = Some ''json'', contentType = Some ''text/json''\<rparr> \<and>
   getContentTypeForFormat sample_api ''json'' = Some ''application/json''"
  by (simp add: negotiate_eval)

text \<open>
  Claim C7, amended. Every result of \<^verbatim>\<open>negotiate\<close> has a format \<open>t\<close> and a non-empty
  content type \<open>ct\<close>. On the wildcard path \<^verbatim>\<open>getContentTypeForFormat\<close> is defined at \<open>t\<close>
  and gives \<open>ct\<close>. On the other path \<open>ct\<close> is what \<^verbatim>\<open>matchAcceptHeaderContentType\<close>
  returned for the Accept entries and \<open>t\<close>.
\<close>

theorem negotiate_content_type_origin:
  assumes "negotiate api rsp frmt strats = Inr r"
  shows "\<exists>t ct. format r = Some t \<and> contentType r = Some ct \<and> ct \<noteq> [] \<and>
           (if wildcard_in (accepts_of rsp) then getContentTypeForFormat api t = Some ct
            else matchAcceptHeaderContentType api (accepts_of rsp) t = Some ct)"
  using decide_Inr [OF assms [unfolded negotiate_def]] by auto

theorem negotiate_content_type_origin_witness:
  "negotiate sample_api
     \<lparr>params_format = None, headers_accept = Some ''application/json, */*'',
      formats = [''json''], completed = False\<rparr> None None =
     Inr \<lparr>format = Some ''json'', contentType = Some ''application/json''\<rparr> \<and>
   wildcard_in (accepts_of \<lparr>params_format = None,
      headers_accept = Some ''application/json, */*'',
      formats = [''json''], completed = False\<rparr>) \<and>
   getContentTypeForFormat sample_api ''json'' = Some ''application/json''"
  using negotiate_content_type_origin
    [of sample_api "\<lparr>params_format = None, headers_accept = Some ''application/json, */*'',
      formats = [''json''], completed = False\<rparr>" None None
      "\<lparr>format = Some ''json'', contentType = Some ''application/json''\<rparr>"]
  by (simp add: negotiate_eval)

text \<open>
  Claim C10. Whenever \<^verbatim>\<open>negotiate\<close> returns a result, there are candidates and the format
  of the result is the first of them. The candidates behind the first have no influence
  on the decision at all: it is the decision for the first candidate alone.
\<close>

theorem negotiate_returns_first_candidate:
  "(negotiate api rsp frmt strats = Inr r \<longrightarrow>
      types_of rsp frmt strats \<noteq> [] \<and> format r = Some (hd (types_of rsp frmt strats))) \<and>
   decide api accepts (t # ts) = decide api accepts [t]"
proof
  show "negotiate api rsp frmt strats = Inr r \<longrightarrow>
      types_of rsp frmt strats \<noteq> [] \<and> format r = Some (hd (types_of rsp frmt strats))"
  proof
    assume "negotiate api rsp frmt strats = Inr r"
    from decide_Inr [OF this [unfolded negotiate_def]]
    show "types_of rsp frmt strats \<noteq> [] \<and> format r = Some (hd (types_of rsp frmt strats))"
      by auto
  qed
next
  show "decide api accepts (t # ts) = decide api accepts [t]"
    by (simp add: decide_def)
qed

theorem negotiate_returns_first_candidate_witness:
  "negotiate sample_api
     \<lparr>params_format = None, headers_accept = Some ''text/json, text/html'',
      formats = [''json'', ''html''], completed = False\<rparr> None None =
     Inr \<lparr>format = Some ''json'', contentType = Some ''text/json''\<rparr> \<and>
   types_of \<lparr>params_format = None, headers_accept = Some ''text/json, text/html'',
      formats = [''json'', ''html''], completed = False\<rparr> None None = [''json'', ''html''] \<and>
   decide sample_api [''text/html''] [''json'', ''html''] = Inl UndefinedFormatError \<and>
   decide sample_api [''text/html''] [''json''] = Inl UndefinedFormatError"
  using negotiate_returns_first_candidate
    [of sample_api "\<lparr>params_format = None, headers_accept = Some ''text/json, text/html'',
      formats = [''json'', ''html''], completed = False\<rparr>" None None
      "\<lparr>format = Some ''json'', contentType = Some ''text/json''\<rparr>"
      "[''text/html'']" "''json''" "[''html'']"]
  by (simp add: negotiate_eval)

section \<open>The claims about respondTo, respond and respondWith\<close>

text \<open>
  Claim C8. When the \<^verbatim>\<open>completed\<close> flag is set, a call of \<^verbatim>\<open>respondTo\<close> either throws
  the error of the negotiation or returns without having called anything; and whenever
  \<^verbatim>\<open>respondTo\<close> has called a strategy or \<^verbatim>\<open>respond\<close>, the flag was not set.
\<close>

theorem respondTo_completed_no_call:
  "(completed rsp \<longrightarrow>
      respondTo api rsp content strats options cb = Inl UndefinedFormatError \<or>
      respondTo api rsp content strats options cb = Inr Returned) \<and>
   (respondTo api rsp content strats options cb = Inr d \<and> d \<noteq> Returned \<longrightarrow> \<not> completed rsp)"
proof -
  let ?n = "negotiate api rsp None (Some (case strats of None \<Rightarrow> [] | Some s \<Rightarrow> s))"
  show ?thesis
  proof (cases ?n)
    case (Inl e)
    then have "e = UndefinedFormatError"
      unfolding negotiate_def by (rule decide_Inl)
    with Inl show ?thesis
      by (simp add: respondTo_def)
  next
    case (Inr n)
    then show ?thesis
      by (auto simp: respondTo_def Let_def)
  qed
qed

theorem respondTo_completed_no_call_witness:
  "completed \<lparr>params_format = None, headers_accept = None, formats = [''html''],
      completed = True\<rparr> \<and>
   (respondTo sample_api \<lparr>params_format = None, headers_accept = None, formats = [''html''],
      completed = True\<rparr> (0::nat) (Some [(''html'', Callable ''render'')]) None (1::nat)
      :: error + (nat, string, nat) dispatched) = Inr Returned \<and>
   (respondTo sample_api \<lparr>params_format = None, headers_accept = None, formats = [''html''],
      completed = False\<rparr> (0::nat) (Some [(''html'', Callable ''render'')]) None (1::nat)
      :: error + (nat, string, nat) dispatched) =
     Inr (StrategyCalled ''render'' 0
       \<lparr>opts_type = None, opts_statusCode = None, opts_format = Some ''html'',
        opts_contentType = Some ''text/html''\<rparr> 1) \<and>
   \<not> completed \<lparr>params_format = None, headers_accept = None, formats = [''html''],
      completed = False\<rparr>"
  using respondTo_completed_no_call
    [of "\<lparr>params_format = None, headers_accept = None, formats = [''html''],
      completed = True\<rparr>" sample_api "0::nat" "Some [(''html'', Callable ''render'')]" None
      "1::nat" "Returned :: (nat, string, nat) dispatched"]
    respondTo_completed_no_call
    [of "\<lparr>params_format = None, headers_accept = None, formats = [''html''],
      completed = False\<rparr>" sample_api "0::nat" "Some [(''html'', Callable ''render'')]" None
      "1::nat" "StrategyCalled ''render'' 0
       \<lparr>opts_type = None, opts_statusCode = None, opts_format = Some ''html'',
        opts_contentType = Some ''text/html''\<rparr> 1 :: (nat, string, nat) dispatched"]
  by (simp add: negotiate_eval respondTo_def or_empty_def mixin_def js_key_def get_property_def)

text \<open>
  Claim C9. When the formatter hands the formatted body to the callback that \<^verbatim>\<open>respond\<close>
  gave it, the writer is called with the status code of the options (200 when none is
  set, and for the falsy 0), with the one header Content-Type whose value is the content
  type of the options, with that body, and with the callback of the caller.
\<close>

theorem respond_writes_response:
  "fc_formatCb (respond content (Some opts) cb) body =
     DoResponse
       (case opts_statusCode opts of Some n \<Rightarrow> if n = 0 then 200 else n | None \<Rightarrow> 200)
       [(''Content-Type'', opts_contentType opts)] body cb \<and>
   fc_formatCb (respond content None cb) body = DoResponse 200 [(''Content-Type'', None)] body cb"
  by (simp add: respond_def or_empty_def)

text \<open>
  What the type inference of \<^verbatim>\<open>respondWith\<close> does where it does not throw: the type of
  the options wins when it is set, and the type read from the content is used otherwise.
\<close>

lemma respondWith_opts_type:
  assumes "content_type_of content = Inr inferred"
  shows "\<exists>opts. respondWith_opts content options = Inr opts \<and>
           opts_type opts =
             (case truthy_str (opts_type (or_empty options)) of
                Some t \<Rightarrow> Some t
              | None \<Rightarrow> inferred)"
  using assms by (simp add: respondWith_opts_def Let_def)

lemma content_type_of_examples:
  "content_type_of (Array [\<lparr>item_type = Some ''Widget''\<rparr>, x]) = Inr (Some ''widget'')"
  "content_type_of (Array []) = Inr None"
  "content_type_of (Object \<lparr>item_type = Some ''Widget''\<rparr>) = Inr (Some ''widget'')"
  by (simp_all add: content_type_of_def type_toLowerCase_def lower_char_def)

text \<open>
  Claim C3 (a type supplied in the options is the type that \<^verbatim>\<open>respondWith\<close> uses, for
  any content; otherwise the lower-cased type of the content is). Evaluated at a content
  value without a \<^verbatim>\<open>type\<close> property and the supplied type "override": the code reads
  \<^verbatim>\<open>content.type.toLowerCase()\<close> first and throws a \<^verbatim>\<open>TypeError\<close>, so the supplied
  type is never looked at and \<^verbatim>\<open>respondTo\<close> is never called.
\<close>

theorem respondWith_override_type_error:
  "respondWith_opts (Object \<lparr>item_type = None\<rparr>)
     (Some \<lparr>opts_type = Some ''override'', opts_statusCode = None, opts_format = None,
            opts_contentType = None\<rparr>) = Inl TypeError \<and>
   respondWith api rsp (Object \<lparr>item_type = None\<rparr>)
     (Some \<lparr>opts_type = Some ''override'', opts_statusCode = None, opts_format = None,
            opts_contentType = None\<rparr>) cb = Inl TypeError"
  by (simp add: respondWith_def respondWith_opts_def content_type_of_def type_toLowerCase_def
      or_empty_def)

end
